theory Spec2Isabelle
  imports Main "HOL-Library.AList"
begin

section \<open>Python objects, references and the store\<close>

text \<open>
  The module \<^verbatim>\<open>util/road_graph.py\<close> defines three classes: \<^verbatim>\<open>Edge\<close>,
  \<^verbatim>\<open>VertexOutgoingEdges\<close> and \<^verbatim>\<open>RoadGraph\<close>. Their instances are mutable and shared
  (an edge object is reused by the reversed graph, a container reads the weight function of
  its parent graph at every access), so objects live in a store and are named by addresses.
  The store has one typed area per class; an address is an index into its area, and a new
  object is appended at the end. A Python \<^verbatim>\<open>dict\<close> is an association list in insertion
  order (\<open>map_of\<close> reads it, \<open>AList.update\<close> assigns, \<open>AList.delete\<close> removes).
\<close>

type_synonym addr = nat

datatype error = KeyError | ValueError | TypeError | AttributeError | InvalidRef

text \<open>
  \<open>InvalidRef\<close> is the result of following an address that names no object. Python cannot
  produce such a reference; the branch only makes the model total.
\<close>

text \<open>
  An \<^verbatim>\<open>Edge\<close> always has the attribute \<^verbatim>\<open>length\<close> (set by the constructor); \<^verbatim>\<open>time\<close> and
  \<^verbatim>\<open>weight\<close> are attributes that may be absent (\<open>None\<close> is "no such attribute", what
  \<^verbatim>\<open>hasattr\<close> tests).
\<close>

record 'w Edge =
  length_attr :: 'w
  time :: "'w option"
  weight :: "'w option"

text \<open>A value held by an \<^verbatim>\<open>edges\<close> dict: Python's \<^verbatim>\<open>None\<close> or a reference to an Edge.\<close>

datatype pyval = PNone | PRef addr

text \<open>What a weight function receives once the reference is followed.\<close>

datatype 'w pyobj = NoneObj | EdgeObj "'w Edge"

type_synonym 'w weight_fun = "'w pyobj \<Rightarrow> error + 'w"

record 'k VertexOutgoingEdges =
  road_graph :: addr
  edges :: "('k \<times> pyval) list"

text \<open>
  The attribute \<^verbatim>\<open>_edge_weight_fun\<close> is \<open>None\<close> until \<^verbatim>\<open>set_edge_weight_function\<close> has
  assigned it for the first time (the constructor does).
\<close>

record ('k, 'w) RoadGraph =
  graph :: "('k \<times> addr) list"
  edge_weight_fun :: "'w weight_fun option"

record ('k, 'w) store =
  edge_store :: "'w Edge list"
  outgoing_store :: "'k VertexOutgoingEdges list"
  graph_store :: "('k, 'w) RoadGraph list"

section \<open>Computations that may raise\<close>

text \<open>
  A method is a function from the store to a result and the store it leaves behind. The
  store is returned also when an exception is raised, so that "raises without side effect"
  is a statement about the model.
\<close>

type_synonym ('k, 'w, 'a) prog = "('k, 'w) store \<Rightarrow> (error + 'a) \<times> ('k, 'w) store"

definition py_return :: "'a \<Rightarrow> ('k, 'w, 'a) prog" where
  "py_return x s = (Inr x, s)"

definition py_raise :: "error \<Rightarrow> ('k, 'w, 'a) prog" where
  "py_raise e s = (Inl e, s)"

definition py_bind :: "('k, 'w, 'a) prog \<Rightarrow> ('a \<Rightarrow> ('k, 'w, 'b) prog) \<Rightarrow> ('k, 'w, 'b) prog" where
  "py_bind m f s = (case m s of (Inl e, s') \<Rightarrow> (Inl e, s') | (Inr x, s') \<Rightarrow> f x s')"

definition nth_opt :: "'a list \<Rightarrow> nat \<Rightarrow> 'a option" where
  "nth_opt xs i = (if i < length xs then Some (xs ! i) else None)"

definition read_edge :: "addr \<Rightarrow> ('k, 'w, 'w Edge) prog" where
  "read_edge a s = (case nth_opt (edge_store s) a of
      None \<Rightarrow> (Inl InvalidRef, s)
    | Some e \<Rightarrow> (Inr e, s))"

definition read_outgoing :: "addr \<Rightarrow> ('k, 'w, 'k VertexOutgoingEdges) prog" where
  "read_outgoing a s = (case nth_opt (outgoing_store s) a of
      None \<Rightarrow> (Inl InvalidRef, s)
    | Some v \<Rightarrow> (Inr v, s))"

definition read_graph :: "addr \<Rightarrow> ('k, 'w, ('k, 'w) RoadGraph) prog" where
  "read_graph a s = (case nth_opt (graph_store s) a of
      None \<Rightarrow> (Inl InvalidRef, s)
    | Some g \<Rightarrow> (Inr g, s))"

definition write_edge :: "addr \<Rightarrow> 'w Edge \<Rightarrow> ('k, 'w, unit) prog" where
  "write_edge a e s = (Inr (), s\<lparr>edge_store := (edge_store s)[a := e]\<rparr>)"

definition write_outgoing :: "addr \<Rightarrow> 'k VertexOutgoingEdges \<Rightarrow> ('k, 'w, unit) prog" where
  "write_outgoing a v s = (Inr (), s\<lparr>outgoing_store := (outgoing_store s)[a := v]\<rparr>)"

definition write_graph :: "addr \<Rightarrow> ('k, 'w) RoadGraph \<Rightarrow> ('k, 'w, unit) prog" where
  "write_graph a g s = (Inr (), s\<lparr>graph_store := (graph_store s)[a := g]\<rparr>)"

text \<open>\<^verbatim>\<open>d[key]\<close> on a dict raises \<^verbatim>\<open>KeyError\<close> when the key is absent.\<close>

definition dict_get :: "('k \<times> 'v) list \<Rightarrow> 'k \<Rightarrow> ('k, 'w, 'v) prog" where
  "dict_get d key = (case map_of d key of None \<Rightarrow> py_raise KeyError | Some v \<Rightarrow> py_return v)"

section \<open>Edge\<close>

text \<open>
  \<^verbatim>\<open>Edge.__init__(self, length)\<close> takes exactly one argument; the list holds the positional
  arguments of the call, and any other number of them is a \<^verbatim>\<open>TypeError\<close>.
\<close>

definition Edge_init :: "'w list \<Rightarrow> ('k, 'w, addr) prog" where
  "Edge_init args s = (case args of
      [l] \<Rightarrow> (Inr (length (edge_store s)),
               s\<lparr>edge_store := edge_store s @ [\<lparr>length_attr = l, time = None, weight = None\<rparr>]\<rparr>)
    | _ \<Rightarrow> (Inl TypeError, s))"

text \<open>\<^verbatim>\<open>obj.weight = val\<close>: \<^verbatim>\<open>None\<close> has no attributes to assign.\<close>

definition assign_weight :: "pyval \<Rightarrow> 'w \<Rightarrow> ('k, 'w, unit) prog" where
  "assign_weight obj val = (case obj of
      PNone \<Rightarrow> py_raise AttributeError
    | PRef a \<Rightarrow> py_bind (read_edge a) (\<lambda>e. write_edge a (e\<lparr>weight := Some val\<rparr>)))"

section \<open>VertexOutgoingEdges\<close>

definition VertexOutgoingEdges_init :: "addr \<Rightarrow> ('k, 'w, addr) prog" where
  "VertexOutgoingEdges_init rg s =
     (Inr (length (outgoing_store s)),
      s\<lparr>outgoing_store := outgoing_store s @ [\<lparr>road_graph = rg, edges = []\<rparr>]\<rparr>)"

text \<open>\<^verbatim>\<open>self.edges[key]\<close> and \<^verbatim>\<open>self.edges[key] = value\<close>.\<close>

definition edges_get :: "addr \<Rightarrow> 'k \<Rightarrow> ('k, 'w, pyval) prog" where
  "edges_get self key = py_bind (read_outgoing self) (\<lambda>v. dict_get (edges v) key)"

definition edges_put :: "addr \<Rightarrow> 'k \<Rightarrow> pyval \<Rightarrow> ('k, 'w, unit) prog" where
  "edges_put self key val =
     py_bind (read_outgoing self) (\<lambda>v. write_outgoing self (v\<lparr>edges := AList.update key val (edges v)\<rparr>))"

text \<open>
  \<^verbatim>\<open>__setitem__\<close>: the first read of \<^verbatim>\<open>self.edges[key]\<close> raises for an absent key; a stored
  \<^verbatim>\<open>None\<close> leads to \<^verbatim>\<open>Edge()\<close>, a call without the required argument.
\<close>

definition VertexOutgoingEdges_setitem :: "addr \<Rightarrow> 'k \<Rightarrow> 'w \<Rightarrow> ('k, 'w, unit) prog" where
  "VertexOutgoingEdges_setitem self key val =
     py_bind (edges_get self key) (\<lambda>cur.
     py_bind (if cur = PNone
              then py_bind (Edge_init []) (\<lambda>a. edges_put self key (PRef a))
              else py_return ()) (\<lambda>_.
     py_bind (edges_get self key) (\<lambda>obj.
     assign_weight obj val)))"

text \<open>Following the stored value for the call of the weight function.\<close>

definition deref :: "pyval \<Rightarrow> ('k, 'w, 'w pyobj) prog" where
  "deref v = (case v of
      PNone \<Rightarrow> py_return NoneObj
    | PRef a \<Rightarrow> py_bind (read_edge a) (\<lambda>e. py_return (EdgeObj e)))"

text \<open>\<^verbatim>\<open>self.road_graph._edge_weight_fun(e)\<close>: the attribute is read from the parent graph
  at the time of the call.\<close>

definition call_edge_weight_fun :: "addr \<Rightarrow> pyval \<Rightarrow> ('k, 'w, 'w) prog" where
  "call_edge_weight_fun rg e =
     py_bind (read_graph rg) (\<lambda>g.
       case edge_weight_fun g of
         None \<Rightarrow> py_raise AttributeError
       | Some f \<Rightarrow> py_bind (deref e) (\<lambda>x. case f x of Inl err \<Rightarrow> py_raise err | Inr w \<Rightarrow> py_return w))"

definition VertexOutgoingEdges_getitem :: "addr \<Rightarrow> 'k \<Rightarrow> ('k, 'w, 'w) prog" where
  "VertexOutgoingEdges_getitem self key =
     py_bind (edges_get self key) (\<lambda>e.
     py_bind (read_outgoing self) (\<lambda>v.
     call_edge_weight_fun (road_graph v) e))"

definition VertexOutgoingEdges_delitem :: "addr \<Rightarrow> 'k \<Rightarrow> ('k, 'w, unit) prog" where
  "VertexOutgoingEdges_delitem self key =
     py_bind (read_outgoing self) (\<lambda>v.
       case map_of (edges v) key of
         None \<Rightarrow> py_raise KeyError
       | Some _ \<Rightarrow> write_outgoing self (v\<lparr>edges := AList.delete key (edges v)\<rparr>))"

definition VertexOutgoingEdges_iter :: "addr \<Rightarrow> ('k, 'w, 'k list) prog" where
  "VertexOutgoingEdges_iter self = py_bind (read_outgoing self) (\<lambda>v. py_return (map fst (edges v)))"

definition VertexOutgoingEdges_len :: "addr \<Rightarrow> ('k, 'w, nat) prog" where
  "VertexOutgoingEdges_len self = py_bind (read_outgoing self) (\<lambda>v. py_return (length (edges v)))"

definition get_edge :: "addr \<Rightarrow> 'k \<Rightarrow> ('k, 'w, pyval) prog" where
  "get_edge self key = edges_get self key"

definition set_edge :: "addr \<Rightarrow> 'k \<Rightarrow> pyval \<Rightarrow> ('k, 'w, unit) prog" where
  "set_edge self key val = edges_put self key val"

section \<open>RoadGraph\<close>

text \<open>The two functions that \<^verbatim>\<open>set_edge_weight_function\<close> builds itself:
  \<^verbatim>\<open>lambda e: e.weight if hasattr(e, 'weight') else e.length\<close> and the same with
  \<^verbatim>\<open>e.time\<close>. \<^verbatim>\<open>None\<close> has none of the attributes.\<close>

definition weight_else_length :: "'w weight_fun" where
  "weight_else_length e = (case e of
      NoneObj \<Rightarrow> Inl AttributeError
    | EdgeObj x \<Rightarrow> (case weight x of Some w \<Rightarrow> Inr w | None \<Rightarrow> Inr (length_attr x)))"

definition weight_else_time :: "'w weight_fun" where
  "weight_else_time e = (case e of
      NoneObj \<Rightarrow> Inl AttributeError
    | EdgeObj x \<Rightarrow> (case weight x of
          Some w \<Rightarrow> Inr w
        | None \<Rightarrow> (case time x of Some t \<Rightarrow> Inr t | None \<Rightarrow> Inl AttributeError)))"

text \<open>
  The argument of \<^verbatim>\<open>set_edge_weight_function\<close>: \<^verbatim>\<open>None\<close>, a string, a function, an
  integer, or an object of any other class. Such an object is given by what the method
  asks of it: its answer to \<^verbatim>\<open>fun == s\<close> for a string \<open>s\<close>, and what calling it does if
  it is callable. The answer to \<^verbatim>\<open>==\<close> is the truth value that the \<^verbatim>\<open>or\<close> and the
  \<^verbatim>\<open>elif\<close> take of the comparison; it runs the \<^verbatim>\<open>__eq__\<close> of the object's class (and
  \<^verbatim>\<open>__bool__\<close> of what that returns), so it is a computation that may raise and may
  change the store.
\<close>

datatype ('k, 'w) pyarg =
    ArgNone
  | ArgStr string
  | ArgFun "'w weight_fun"
  | ArgInt int
  | ArgObj "string \<Rightarrow> ('k, 'w, bool) prog" "'w weight_fun option"

text \<open>\<^verbatim>\<open>fun == s\<close> for a string \<open>s\<close>: \<^verbatim>\<open>None\<close>, functions and integers are equal to no
  string, a string is equal to itself only, another object answers for itself.\<close>

primrec py_eq_str :: "('k, 'w) pyarg \<Rightarrow> string \<Rightarrow> ('k, 'w, bool) prog" where
  "py_eq_str ArgNone s = py_return False"
| "py_eq_str (ArgStr n) s = py_return (n = s)"
| "py_eq_str (ArgFun f) s = py_return False"
| "py_eq_str (ArgInt i) s = py_return False"
| "py_eq_str (ArgObj eq call) s = eq s"

primrec callable :: "('k, 'w) pyarg \<Rightarrow> bool" where
  "callable ArgNone = False"
| "callable (ArgStr n) = False"
| "callable (ArgFun f) = True"
| "callable (ArgInt i) = False"
| "callable (ArgObj eq call) = (call \<noteq> None)"

text \<open>What calling the argument does; an object that is not callable raises
  \<^verbatim>\<open>TypeError\<close> when called.\<close>

primrec as_function :: "('k, 'w) pyarg \<Rightarrow> 'w weight_fun" where
  "as_function (ArgFun f) = f"
| "as_function ArgNone = (\<lambda>_. Inl TypeError)"
| "as_function (ArgStr n) = (\<lambda>_. Inl TypeError)"
| "as_function (ArgInt i) = (\<lambda>_. Inl TypeError)"
| "as_function (ArgObj eq call) = (case call of Some f \<Rightarrow> f | None \<Rightarrow> (\<lambda>_. Inl TypeError))"

text \<open>\<^verbatim>\<open>self._edge_weight_fun = f\<close>.\<close>

definition assign_edge_weight_fun :: "addr \<Rightarrow> 'w weight_fun \<Rightarrow> ('k, 'w, unit) prog" where
  "assign_edge_weight_fun self f =
     py_bind (read_graph self) (\<lambda>g. write_graph self (g\<lparr>edge_weight_fun := Some f\<rparr>))"

text \<open>
  The tests run in the order of the source: \<^verbatim>\<open>fun is None or fun == 'length'\<close> (the
  comparison is not evaluated for \<^verbatim>\<open>None\<close>), then \<^verbatim>\<open>fun == 'time'\<close>, then
  \<^verbatim>\<open>callable(fun)\<close>.
\<close>

definition set_edge_weight_function :: "addr \<Rightarrow> ('k, 'w) pyarg \<Rightarrow> ('k, 'w, unit) prog" where
  "set_edge_weight_function self fn =
     py_bind (if fn = ArgNone then py_return True else py_eq_str fn ''length'') (\<lambda>is_length.
       if is_length then assign_edge_weight_fun self weight_else_length
       else py_bind (py_eq_str fn ''time'') (\<lambda>is_time.
         if is_time then assign_edge_weight_fun self weight_else_time
         else if callable fn then assign_edge_weight_fun self (as_function fn)
         else py_raise ValueError))"

definition get_edge_weight_function :: "addr \<Rightarrow> ('k, 'w, 'w weight_fun) prog" where
  "get_edge_weight_function self =
     py_bind (read_graph self) (\<lambda>g.
       case edge_weight_fun g of None \<Rightarrow> py_raise AttributeError | Some f \<Rightarrow> py_return f)"

text \<open>The constructor: \<^verbatim>\<open>self.graph = dict()\<close> on the new object, then
  \<^verbatim>\<open>self.set_edge_weight_function()\<close> with the default argument \<^verbatim>\<open>None\<close>.\<close>

definition RoadGraph_init :: "('k, 'w, addr) prog" where
  "RoadGraph_init =
     py_bind (\<lambda>s. (Inr (length (graph_store s)),
                   s\<lparr>graph_store := graph_store s @ [\<lparr>graph = [], edge_weight_fun = None\<rparr>]\<rparr>)) (\<lambda>self.
     py_bind (set_edge_weight_function self ArgNone) (\<lambda>_.
     py_return self))"

definition RoadGraph_setitem :: "addr \<Rightarrow> 'k \<Rightarrow> addr \<Rightarrow> ('k, 'w, unit) prog" where
  "RoadGraph_setitem self key val =
     py_bind (read_graph self) (\<lambda>g. write_graph self (g\<lparr>graph := AList.update key val (graph g)\<rparr>))"

definition RoadGraph_getitem :: "addr \<Rightarrow> 'k \<Rightarrow> ('k, 'w, addr) prog" where
  "RoadGraph_getitem self key = py_bind (read_graph self) (\<lambda>g. dict_get (graph g) key)"

definition RoadGraph_delitem :: "addr \<Rightarrow> 'k \<Rightarrow> ('k, 'w, unit) prog" where
  "RoadGraph_delitem self key =
     py_bind (read_graph self) (\<lambda>g.
       case map_of (graph g) key of
         None \<Rightarrow> py_raise KeyError
       | Some _ \<Rightarrow> write_graph self (g\<lparr>graph := AList.delete key (graph g)\<rparr>))"

definition RoadGraph_iter :: "addr \<Rightarrow> ('k, 'w, 'k list) prog" where
  "RoadGraph_iter self = py_bind (read_graph self) (\<lambda>g. py_return (map fst (graph g)))"

definition RoadGraph_len :: "addr \<Rightarrow> ('k, 'w, nat) prog" where
  "RoadGraph_len self = py_bind (read_graph self) (\<lambda>g. py_return (length (graph g)))"

text \<open>
  \<^verbatim>\<open>key in graph\<close> is the mixin method of \<^verbatim>\<open>collections.Mapping\<close>: it evaluates
  \<^verbatim>\<open>self[key]\<close> and answers \<^verbatim>\<open>False\<close> exactly when that raises \<^verbatim>\<open>KeyError\<close>.
\<close>

definition RoadGraph_contains :: "addr \<Rightarrow> 'k \<Rightarrow> ('k, 'w, bool) prog" where
  "RoadGraph_contains self key s = (case RoadGraph_getitem self key s of
      (Inr _, s') \<Rightarrow> (Inr True, s')
    | (Inl e, s') \<Rightarrow> if e = KeyError then (Inr False, s') else (Inl e, s'))"

text \<open>
  \<^verbatim>\<open>reverse\<close>: \<open>reverse_body\<close> is the body of the inner loop (the test, the creation of the
  container and the call of \<^verbatim>\<open>set_edge\<close>); the inner loop runs over the destinations of one
  source vertex, the outer loop over the source vertices. \<^verbatim>\<open>self.graph\<close> is read directly
  (not through \<^verbatim>\<open>__getitem__\<close>), the new graph through its mapping methods.
\<close>

definition reverse_body :: "addr \<Rightarrow> addr \<Rightarrow> 'k \<Rightarrow> 'k \<Rightarrow> ('k, 'w, unit) prog" where
  "reverse_body self reverse_graph from_edge to_edge =
     py_bind (RoadGraph_contains reverse_graph to_edge) (\<lambda>present.
     py_bind (if \<not> present
              then py_bind (VertexOutgoingEdges_init reverse_graph) (\<lambda>v.
                     RoadGraph_setitem reverse_graph to_edge v)
              else py_return ()) (\<lambda>_.
     py_bind (RoadGraph_getitem reverse_graph to_edge) (\<lambda>target.
     py_bind (read_graph self) (\<lambda>g.
     py_bind (dict_get (graph g) from_edge) (\<lambda>out.
     py_bind (get_edge out to_edge) (\<lambda>e.
     set_edge target from_edge e))))))"

primrec reverse_inner :: "addr \<Rightarrow> addr \<Rightarrow> 'k \<Rightarrow> 'k list \<Rightarrow> ('k, 'w, unit) prog" where
  "reverse_inner self reverse_graph from_edge [] = py_return ()"
| "reverse_inner self reverse_graph from_edge (to_edge # rest) =
     py_bind (reverse_body self reverse_graph from_edge to_edge) (\<lambda>_.
     reverse_inner self reverse_graph from_edge rest)"

primrec reverse_outer :: "addr \<Rightarrow> addr \<Rightarrow> 'k list \<Rightarrow> ('k, 'w, unit) prog" where
  "reverse_outer self reverse_graph [] = py_return ()"
| "reverse_outer self reverse_graph (from_edge # rest) =
     py_bind (read_graph self) (\<lambda>g.
     py_bind (dict_get (graph g) from_edge) (\<lambda>out.
     py_bind (VertexOutgoingEdges_iter out) (\<lambda>dests.
     py_bind (reverse_inner self reverse_graph from_edge dests) (\<lambda>_.
     reverse_outer self reverse_graph rest))))"

definition reverse :: "addr \<Rightarrow> ('k, 'w, addr) prog" where
  "reverse self =
     py_bind RoadGraph_init (\<lambda>reverse_graph.
     py_bind (read_graph self) (\<lambda>g.
     py_bind (reverse_outer self reverse_graph (map fst (graph g))) (\<lambda>_.
     py_return reverse_graph)))"

section \<open>Observations on the store\<close>

text \<open>The entry of a container for a destination, and the entry of a graph for a pair of
  a source and a destination (what \<^verbatim>\<open>graph[src].get_edge(dest)\<close> would find).\<close>

definition stored_edge :: "('k, 'w) store \<Rightarrow> addr \<Rightarrow> 'k \<Rightarrow> pyval option" where
  "stored_edge s v dest = (case nth_opt (outgoing_store s) v of
      None \<Rightarrow> None
    | Some out \<Rightarrow> map_of (edges out) dest)"

definition arc :: "('k, 'w) store \<Rightarrow> addr \<Rightarrow> 'k \<Rightarrow> 'k \<Rightarrow> pyval option" where
  "arc s g src dest = (case nth_opt (graph_store s) g of
      None \<Rightarrow> None
    | Some G \<Rightarrow> (case map_of (graph G) src of
          None \<Rightarrow> None
        | Some v \<Rightarrow> stored_edge s v dest))"

text \<open>A graph of the store whose values are all containers of the store.\<close>

definition graph_ok :: "('k, 'w) store \<Rightarrow> addr \<Rightarrow> bool" where
  "graph_ok s g = (case nth_opt (graph_store s) g of
      None \<Rightarrow> False
    | Some G \<Rightarrow> list_all (\<lambda>v. v < length (outgoing_store s)) (map snd (graph G)))"

text \<open>
  The state of the store while \<^verbatim>\<open>reverse\<close> runs, relative to the store \<open>s0\<close> in which it
  was called: the new graph \<open>r\<close> is the one object added to the graphs, the objects of
  \<open>s0\<close> are where and what they were, no Edge object was added or changed, the new graph
  has the default weight function, and its values are distinct containers created since,
  each referring back to \<open>r\<close> and holding at least one entry.
\<close>

definition reverse_inv :: "('k, 'w) store \<Rightarrow> addr \<Rightarrow> ('k, 'w) store \<Rightarrow> bool" where
  "reverse_inv s0 r s \<longleftrightarrow>
     r = length (graph_store s0) \<and> length (graph_store s) = Suc r \<and>
     take r (graph_store s) = graph_store s0 \<and>
     take (length (outgoing_store s0)) (outgoing_store s) = outgoing_store s0 \<and>
     edge_store s = edge_store s0 \<and>
     edge_weight_fun (graph_store s ! r) = Some weight_else_length \<and>
     distinct (map snd (graph (graph_store s ! r))) \<and>
     (\<forall>v \<in> set (map snd (graph (graph_store s ! r))).
        length (outgoing_store s0) \<le> v \<and> v < length (outgoing_store s) \<and>
        road_graph (outgoing_store s ! v) = r \<and> edges (outgoing_store s ! v) \<noteq> [])"

text \<open>The example of the specification: \<open>A \<rightarrow> {B: Edge(5)}\<close>, \<open>B \<rightarrow> {C: Edge(3)}\<close>, with
  the graph in the mode the constructor installs.\<close>

definition example_store :: "(string, int) store" where
  "example_store =
     \<lparr>edge_store = [\<lparr>length_attr = 5, time = None, weight = None\<rparr>,
                    \<lparr>length_attr = 3, time = Some 7, weight = None\<rparr>],
      outgoing_store = [\<lparr>road_graph = 0, edges = [(''B'', PRef 0)]\<rparr>,
                        \<lparr>road_graph = 0, edges = [(''C'', PRef 1)]\<rparr>],
      graph_store = [\<lparr>graph = [(''A'', 0), (''B'', 1)], edge_weight_fun = Some weight_else_length\<rparr>]\<rparr>"

text \<open>An object like \<^verbatim>\<open>unittest.mock.ANY\<close>: it is not \<^verbatim>\<open>None\<close>, not a string and not
  callable, and its \<^verbatim>\<open>__eq__\<close> answers \<^verbatim>\<open>True\<close> to everything.\<close>

definition mock_ANY :: "('k, 'w) pyarg" where
  "mock_ANY = ArgObj (\<lambda>s. py_return True) None"

section \<open>Basic facts\<close>

lemmas prog_defs = py_return_def py_raise_def py_bind_def read_edge_def read_outgoing_def
  read_graph_def write_edge_def write_outgoing_def write_graph_def dict_get_def

lemma nth_opt_Some_iff: "nth_opt xs i = Some x \<longleftrightarrow> i < length xs \<and> xs ! i = x"
  by (auto simp: nth_opt_def)

lemma nth_opt_valid: "i < length xs \<Longrightarrow> nth_opt xs i = Some (xs ! i)"
  by (simp add: nth_opt_def)

section \<open>The containers of outgoing edges\<close>

text \<open>
  Claim C3. The weight-style setter \<^verbatim>\<open>container[dest] = w\<close> on a destination that has no
  entry raises \<^verbatim>\<open>KeyError\<close>, and the store it leaves is the store it found: no entry is
  created and nothing else changes.
\<close>

theorem setitem_absent_key:
  assumes "nth_opt (outgoing_store s) self = Some out"
    and "map_of (edges out) key = None"
  shows "VertexOutgoingEdges_setitem self key val s = (Inl KeyError, s)"
  using assms by (simp add: VertexOutgoingEdges_setitem_def edges_get_def prog_defs)

theorem setitem_absent_key_witness:
  "nth_opt (outgoing_store example_store) 0 = Some \<lparr>road_graph = 0, edges = [(''B'', PRef 0)]\<rparr>
   \<and> map_of (edges \<lparr>road_graph = 0, edges = [(''B'', PRef 0)]\<rparr>) ''C'' = None
   \<and> VertexOutgoingEdges_setitem 0 ''C'' 9 example_store = (Inl KeyError, example_store)"
  using setitem_absent_key [of example_store 0 "\<lparr>road_graph = 0, edges = [(''B'', PRef 0)]\<rparr>" "''C''" 9]
  by (simp add: example_store_def nth_opt_def)

text \<open>
  Claim C9. The weight-style setter on a destination that holds an Edge succeeds and changes
  one thing, the \<^verbatim>\<open>weight\<close> attribute of that Edge object: every container (its entries,
  among them the reference stored for the destination, and its reference to the parent
  graph) and every graph is as before, the Edge keeps its \<^verbatim>\<open>length\<close> and \<^verbatim>\<open>time\<close>, and
  every other Edge object is as before.
\<close>

theorem setitem_existing_edge:
  assumes "nth_opt (outgoing_store s) self = Some out"
    and "map_of (edges out) dest = Some (PRef a)"
    and "nth_opt (edge_store s) a = Some e"
    and "s' = snd (VertexOutgoingEdges_setitem self dest val s)"
  shows "fst (VertexOutgoingEdges_setitem self dest val s) = Inr ()
       \<and> outgoing_store s' = outgoing_store s
       \<and> graph_store s' = graph_store s
       \<and> nth_opt (edge_store s') a = Some (e\<lparr>weight := Some val\<rparr>)
       \<and> length_attr (edge_store s' ! a) = length_attr e
       \<and> time (edge_store s' ! a) = time e
       \<and> length (edge_store s') = length (edge_store s)
       \<and> (\<forall>b. b \<noteq> a \<longrightarrow> nth_opt (edge_store s') b = nth_opt (edge_store s) b)"
  using assms
  by (auto simp add: VertexOutgoingEdges_setitem_def edges_get_def assign_weight_def prog_defs
      nth_opt_def split: if_splits)

theorem setitem_existing_edge_witness:
  "fst (VertexOutgoingEdges_setitem 1 ''C'' 4 example_store) = Inr ()
   \<and> outgoing_store (snd (VertexOutgoingEdges_setitem 1 ''C'' 4 example_store))
       = outgoing_store example_store
   \<and> nth_opt (edge_store (snd (VertexOutgoingEdges_setitem 1 ''C'' 4 example_store))) 1
       = Some \<lparr>length_attr = 3, time = Some 7, weight = Some 4\<rparr>
   \<and> nth_opt (edge_store (snd (VertexOutgoingEdges_setitem 1 ''C'' 4 example_store))) 0
       = Some \<lparr>length_attr = 5, time = None, weight = None\<rparr>"
  using setitem_existing_edge [of example_store 1 "\<lparr>road_graph = 0, edges = [(''C'', PRef 1)]\<rparr>"
      "''C''" 1 "\<lparr>length_attr = 3, time = Some 7, weight = None\<rparr>"
      "snd (VertexOutgoingEdges_setitem 1 ''C'' 4 example_store)" 4]
  by (simp add: example_store_def VertexOutgoingEdges_setitem_def edges_get_def assign_weight_def
      prog_defs nth_opt_def)

text \<open>
  Claim C5. The weighted read \<^verbatim>\<open>container[dest]\<close> raises \<^verbatim>\<open>KeyError\<close> for a destination
  without entry (no default value is returned); for a destination holding an Edge it returns
  what the weight function currently installed in the parent graph returns on that Edge,
  a weight and not the Edge.
\<close>

theorem getitem_weighted_read:
  assumes "nth_opt (outgoing_store s) self = Some out"
  shows "(map_of (edges out) dest = None \<longrightarrow>
            VertexOutgoingEdges_getitem self dest s = (Inl KeyError, s))
       \<and> (map_of (edges out) dest = Some (PRef a) \<and> nth_opt (edge_store s) a = Some e
            \<and> nth_opt (graph_store s) (road_graph out) = Some g \<and> edge_weight_fun g = Some f \<longrightarrow>
            VertexOutgoingEdges_getitem self dest s = (f (EdgeObj e), s))"
  using assms
  by (auto simp add: VertexOutgoingEdges_getitem_def edges_get_def call_edge_weight_fun_def
      deref_def prog_defs split: sum.splits)

theorem getitem_weighted_read_witness:
  "VertexOutgoingEdges_getitem 0 ''Z'' example_store = (Inl KeyError, example_store)
   \<and> VertexOutgoingEdges_getitem 0 ''B'' example_store = (Inr 5, example_store)"
  using getitem_weighted_read [of example_store 0 "\<lparr>road_graph = 0, edges = [(''B'', PRef 0)]\<rparr>" "''Z''"]
    getitem_weighted_read [of example_store 0 "\<lparr>road_graph = 0, edges = [(''B'', PRef 0)]\<rparr>" "''B''" 0
      "\<lparr>length_attr = 5, time = None, weight = None\<rparr>"
      "\<lparr>graph = [(''A'', 0), (''B'', 1)], edge_weight_fun = Some weight_else_length\<rparr>"
      weight_else_length]
  by (simp add: example_store_def nth_opt_def weight_else_length_def)

text \<open>
  Claim C7. \<^verbatim>\<open>set_edge(dest, edge)\<close> on a container succeeds whatever the container held
  for \<^verbatim>\<open>dest\<close>; afterwards \<^verbatim>\<open>get_edge(dest)\<close> returns exactly the stored value (no weight
  function is applied), the entry for \<^verbatim>\<open>dest\<close> is the new value and the other entries are
  as before.
\<close>

theorem set_edge_get_edge:
  assumes "self < length (outgoing_store s)"
  shows "fst (set_edge self key e s) = Inr ()
       \<and> get_edge self key (snd (set_edge self key e s)) = (Inr e, snd (set_edge self key e s))
       \<and> (\<forall>k. stored_edge (snd (set_edge self key e s)) self k
               = (if k = key then Some e else stored_edge s self k))"
  using assms
  by (simp add: set_edge_def get_edge_def edges_put_def edges_get_def prog_defs nth_opt_def
      stored_edge_def AList.update_conv')

theorem set_edge_get_edge_witness:
  "fst (set_edge 0 ''B'' (PRef 1) example_store) = Inr ()
   \<and> get_edge 0 ''B'' (snd (set_edge 0 ''B'' (PRef 1) example_store))
       = (Inr (PRef 1), snd (set_edge 0 ''B'' (PRef 1) example_store))
   \<and> get_edge 0 ''B'' example_store = (Inr (PRef 0), example_store)"
  using set_edge_get_edge [of 0 example_store "''B''" "PRef 1"]
  by (simp add: example_store_def get_edge_def edges_get_def prog_defs nth_opt_def)

section \<open>The weight function of a graph\<close>

text \<open>
  Claim C2. Once a graph is configured with \<^verbatim>\<open>"length"\<close> or with \<^verbatim>\<open>"time"\<close>, the weighted
  read of a stored Edge that has a \<^verbatim>\<open>weight\<close> attribute returns that weight in both modes;
  for an Edge without \<^verbatim>\<open>weight\<close> it returns the \<^verbatim>\<open>length\<close> attribute in mode \<^verbatim>\<open>"length"\<close>
  and the \<^verbatim>\<open>time\<close> attribute in mode \<^verbatim>\<open>"time"\<close>.
\<close>

theorem weighted_read_by_mode:
  assumes "mode = ''length'' \<or> mode = ''time''"
    and "nth_opt (outgoing_store s) self = Some out"
    and "map_of (edges out) dest = Some (PRef a)"
    and "nth_opt (edge_store s) a = Some e"
    and "road_graph out < length (graph_store s)"
    and "s' = snd (set_edge_weight_function (road_graph out) (ArgStr mode) s)"
  shows "fst (set_edge_weight_function (road_graph out) (ArgStr mode) s) = Inr ()
       \<and> (\<forall>w. weight e = Some w \<longrightarrow> VertexOutgoingEdges_getitem self dest s' = (Inr w, s'))
       \<and> (weight e = None \<and> mode = ''length'' \<longrightarrow>
            VertexOutgoingEdges_getitem self dest s' = (Inr (length_attr e), s'))
       \<and> (\<forall>t. weight e = None \<and> mode = ''time'' \<and> time e = Some t \<longrightarrow>
            VertexOutgoingEdges_getitem self dest s' = (Inr t, s'))"
  using assms
  by (auto simp add: VertexOutgoingEdges_getitem_def edges_get_def call_edge_weight_fun_def
      deref_def prog_defs set_edge_weight_function_def assign_edge_weight_fun_def
      nth_opt_Some_iff nth_opt_valid weight_else_length_def weight_else_time_def)

theorem weighted_read_by_mode_witness:
  "VertexOutgoingEdges_getitem 1 ''C'' (snd (set_edge_weight_function 0 (ArgStr ''time'') example_store))
     = (Inr 7, snd (set_edge_weight_function 0 (ArgStr ''time'') example_store))
   \<and> VertexOutgoingEdges_getitem 1 ''C'' (snd (set_edge_weight_function 0 (ArgStr ''length'') example_store))
     = (Inr 3, snd (set_edge_weight_function 0 (ArgStr ''length'') example_store))"
  using weighted_read_by_mode [of "''time''" example_store 1
      "\<lparr>road_graph = 0, edges = [(''C'', PRef 1)]\<rparr>" "''C''" 1
      "\<lparr>length_attr = 3, time = Some 7, weight = None\<rparr>"
      "snd (set_edge_weight_function 0 (ArgStr ''time'') example_store)"]
    weighted_read_by_mode [of "''length''" example_store 1
      "\<lparr>road_graph = 0, edges = [(''C'', PRef 1)]\<rparr>" "''C''" 1
      "\<lparr>length_attr = 3, time = Some 7, weight = None\<rparr>"
      "snd (set_edge_weight_function 0 (ArgStr ''length'') example_store)"]
  by (simp add: example_store_def nth_opt_def)

text \<open>
  Claim C4, as amended. An argument of \<^verbatim>\<open>set_edge_weight_function\<close> that is not \<^verbatim>\<open>None\<close>,
  that answers false to \<^verbatim>\<open>fun == 'length'\<close> and to \<^verbatim>\<open>fun == 'time'\<close> (the comparisons
  neither raise nor change the store) and that is not callable makes the call raise
  \<^verbatim>\<open>ValueError\<close> at once and leave the store as it was, so that the function installed
  before is the one returned and used by the reads that follow.
\<close>

theorem set_edge_weight_function_rejects:
  assumes "fn \<noteq> ArgNone"
    and "py_eq_str fn ''length'' s = (Inr False, s)"
    and "py_eq_str fn ''time'' s = (Inr False, s)"
    and "\<not> callable fn"
  shows "set_edge_weight_function self fn s = (Inl ValueError, s)
       \<and> get_edge_weight_function self (snd (set_edge_weight_function self fn s))
           = get_edge_weight_function self s
       \<and> VertexOutgoingEdges_getitem v dest (snd (set_edge_weight_function self fn s))
           = VertexOutgoingEdges_getitem v dest s"
  using assms by (simp add: set_edge_weight_function_def py_bind_def py_raise_def)

theorem set_edge_weight_function_rejects_witness:
  "set_edge_weight_function 0 (ArgStr ''distance'') example_store = (Inl ValueError, example_store)
   \<and> set_edge_weight_function 0 (ArgInt 3) example_store = (Inl ValueError, example_store)
   \<and> set_edge_weight_function 0 (ArgObj (\<lambda>n. py_return False) None) example_store
        = (Inl ValueError, example_store)"
  using set_edge_weight_function_rejects [of "ArgStr ''distance''" example_store 0]
    set_edge_weight_function_rejects [of "ArgInt 3" example_store 0]
    set_edge_weight_function_rejects [of "ArgObj (\<lambda>n. py_return False) None" example_store 0]
  by (simp add: py_return_def)

text \<open>
  The hypotheses on the comparisons hold for every string other than the two mode names
  and for every integer, in every store.
\<close>

lemma unrecognised_builtin_argument:
  "n \<noteq> ''length'' \<Longrightarrow> n \<noteq> ''time'' \<Longrightarrow>
     set_edge_weight_function self (ArgStr n) s = (Inl ValueError, s)"
  "set_edge_weight_function self (ArgInt i) s = (Inl ValueError, s)"
  by (simp_all add: set_edge_weight_function_def py_bind_def py_return_def py_raise_def)

text \<open>A comparison that raises ends the call with its exception, before any assignment.\<close>

lemma set_edge_weight_function_comparison_raises:
  "fn \<noteq> ArgNone \<Longrightarrow> py_eq_str fn ''length'' s = (Inl e, s1) \<Longrightarrow>
     set_edge_weight_function self fn s = (Inl e, s1)"
  "fn \<noteq> ArgNone \<Longrightarrow> py_eq_str fn ''length'' s = (Inr False, s1) \<Longrightarrow>
     py_eq_str fn ''time'' s1 = (Inl e, s2) \<Longrightarrow>
     set_edge_weight_function self fn s = (Inl e, s2)"
  by (simp_all add: set_edge_weight_function_def py_bind_def)

text \<open>
  The claim C4 as the specification words it fails at two inputs that are neither of the
  two strings nor callable. \<^verbatim>\<open>None\<close> is accepted by the first test. An object whose
  \<^verbatim>\<open>__eq__\<close> answers \<^verbatim>\<open>True\<close> to \<^verbatim>\<open>'length'\<close> is accepted by the comparison: on the
  example graph configured with \<^verbatim>\<open>"time"\<close>, where the read of \<open>C\<close> gives the time 7, the
  call does not raise and the read gives the length 3 afterwards.
\<close>

theorem set_edge_weight_function_accepts_more:
  "(ArgNone :: (string, int) pyarg) \<noteq> ArgStr ''length''
   \<and> (ArgNone :: (string, int) pyarg) \<noteq> ArgStr ''time''
   \<and> \<not> callable (ArgNone :: (string, int) pyarg)
   \<and> fst (set_edge_weight_function 0 ArgNone example_store) = Inr ()
   \<and> (mock_ANY :: (string, int) pyarg) \<noteq> ArgNone
   \<and> (mock_ANY :: (string, int) pyarg) \<noteq> ArgStr ''length''
   \<and> (mock_ANY :: (string, int) pyarg) \<noteq> ArgStr ''time''
   \<and> \<not> callable (mock_ANY :: (string, int) pyarg)
   \<and> fst (VertexOutgoingEdges_getitem 1 ''C''
           (snd (set_edge_weight_function 0 (ArgStr ''time'') example_store))) = Inr 7
   \<and> fst (set_edge_weight_function 0 mock_ANY
           (snd (set_edge_weight_function 0 (ArgStr ''time'') example_store))) = Inr ()
   \<and> fst (VertexOutgoingEdges_getitem 1 ''C''
           (snd (set_edge_weight_function 0 mock_ANY
             (snd (set_edge_weight_function 0 (ArgStr ''time'') example_store))))) = Inr 3"
  by (simp add: mock_ANY_def set_edge_weight_function_def assign_edge_weight_fun_def
      VertexOutgoingEdges_getitem_def edges_get_def call_edge_weight_fun_def deref_def
      weight_else_length_def weight_else_time_def prog_defs nth_opt_def example_store_def)

text \<open>
  Claim C10. \<^verbatim>\<open>set_edge_weight_function\<close> called with \<^verbatim>\<open>None\<close> (the value of the omitted
  argument) does not raise: it installs the function that returns the weight of an edge if
  it has one and its length otherwise, and the constructor of \<^verbatim>\<open>RoadGraph\<close> installs the
  same function.
\<close>

theorem set_edge_weight_function_default:
  "(self < length (graph_store s) \<longrightarrow>
      set_edge_weight_function self ArgNone s =
        (Inr (), s\<lparr>graph_store := (graph_store s)
                     [self := (graph_store s ! self)\<lparr>edge_weight_fun := Some weight_else_length\<rparr>]\<rparr>))
   \<and> RoadGraph_init s =
        (Inr (length (graph_store s)),
         s\<lparr>graph_store := graph_store s @ [\<lparr>graph = [], edge_weight_fun = Some weight_else_length\<rparr>]\<rparr>)
   \<and> weight_else_length (EdgeObj e) = Inr (case weight e of Some w \<Rightarrow> w | None \<Rightarrow> length_attr e)"
  by (simp add: RoadGraph_init_def set_edge_weight_function_def assign_edge_weight_fun_def
      prog_defs nth_opt_def weight_else_length_def split: option.splits)

theorem set_edge_weight_function_default_witness:
  "fst (set_edge_weight_function 0 (ArgNone :: (string, int) pyarg)
          (snd (set_edge_weight_function 0 (ArgStr ''time'') example_store))) = Inr ()
   \<and> get_edge_weight_function 0 (snd (set_edge_weight_function 0 (ArgNone :: (string, int) pyarg)
          (snd (set_edge_weight_function 0 (ArgStr ''time'') example_store))))
       = (Inr weight_else_length, example_store)"
  using set_edge_weight_function_default
    [of 0 "snd (set_edge_weight_function 0 (ArgStr ''time'') example_store)"]
  by (simp add: example_store_def set_edge_weight_function_def assign_edge_weight_fun_def
      get_edge_weight_function_def prog_defs nth_opt_def)

section \<open>Reversal\<close>

lemma reverse_invD:
  assumes "reverse_inv s0 r s"
  shows "r = length (graph_store s0)" and "length (graph_store s) = Suc r"
    and "r < length (graph_store s)"
    and "take (length (graph_store s0)) (graph_store s) = graph_store s0"
    and "take (length (outgoing_store s0)) (outgoing_store s) = outgoing_store s0"
    and "edge_store s = edge_store s0"
    and "edge_weight_fun (graph_store s ! r) = Some weight_else_length"
    and "distinct (map snd (graph (graph_store s ! r)))"
    and "\<And>k v. map_of (graph (graph_store s ! r)) k = Some v \<Longrightarrow>
           length (outgoing_store s0) \<le> v \<and> v < length (outgoing_store s) \<and>
           road_graph (outgoing_store s ! v) = r \<and> edges (outgoing_store s ! v) \<noteq> []"
  using assms unfolding reverse_inv_def by (auto dest!: map_of_SomeD)

lemma reverse_invI:
  assumes "r = length (graph_store s0)" and "length (graph_store s) = Suc r"
    and "take (length (graph_store s0)) (graph_store s) = graph_store s0"
    and "take (length (outgoing_store s0)) (outgoing_store s) = outgoing_store s0"
    and "edge_store s = edge_store s0"
    and "edge_weight_fun (graph_store s ! r) = Some weight_else_length"
    and "distinct (map snd (graph (graph_store s ! r)))"
    and "\<forall>v \<in> set (map snd (graph (graph_store s ! r))).
           length (outgoing_store s0) \<le> v \<and> v < length (outgoing_store s) \<and>
           road_graph (outgoing_store s ! v) = r \<and> edges (outgoing_store s ! v) \<noteq> []"
  shows "reverse_inv s0 r s"
  unfolding reverse_inv_def using assms by blast

lemma update_absent: "map_of al k = None \<Longrightarrow> AList.update k v al = al @ [(k, v)]"
  by (induction al) (auto split: if_splits)

lemma take_eq_nth: "take (length xs) ys = xs \<Longrightarrow> i < length xs \<Longrightarrow> ys ! i = xs ! i"
  by (metis nth_take)

lemma take_eq_length: "take (length xs) ys = xs \<Longrightarrow> length xs \<le> length ys"
proof -
  assume h: "take (length xs) ys = xs"
  have "length (take (length xs) ys) = length xs" by (simp add: h)
  then show ?thesis by simp
qed

lemma take_eq_nth_opt:
  "take (length xs) ys = xs \<Longrightarrow> nth_opt xs i = Some x \<Longrightarrow> nth_opt ys i = Some x"
  using take_eq_nth [of xs ys i] take_eq_length [of xs ys] by (auto simp: nth_opt_Some_iff)

lemma map_of_distinct_snd:
  "distinct (map snd al) \<Longrightarrow> map_of al k = Some v \<Longrightarrow> map_of al k' = Some v \<Longrightarrow> k = k'"
proof -
  assume d: "distinct (map snd al)" and "map_of al k = Some v" and "map_of al k' = Some v"
  then have "(k, v) \<in> set al" and "(k', v) \<in> set al" by (auto dest: map_of_SomeD)
  with d show "k = k'" by (metis eq_key_imp_eq_value distinct_map inj_on_def snd_conv prod.inject)
qed

lemma contains_result:
  "nth_opt (graph_store s) r = Some R \<Longrightarrow>
   RoadGraph_contains r d s = (Inr (map_of (graph R) d \<noteq> None), s)"
  by (auto simp: RoadGraph_contains_def RoadGraph_getitem_def prog_defs split: option.splits)

lemma body_absent:
  assumes "nth_opt (graph_store s) r = Some R" and "map_of (graph R) d = None"
    and "nth_opt (graph_store s) g = Some G" and "g \<noteq> r"
    and "map_of (graph G) x = Some out" and "nth_opt (outgoing_store s) out = Some OUT"
    and "map_of (edges OUT) d = Some e"
  shows "reverse_body g r x d s = (Inr (),
           s\<lparr>outgoing_store := outgoing_store s @ [\<lparr>road_graph = r, edges = [(x, e)]\<rparr>],
             graph_store := (graph_store s)[r := R\<lparr>graph := graph R @ [(d, length (outgoing_store s))]\<rparr>]\<rparr>)"
  using assms
  by (simp add: reverse_body_def contains_result VertexOutgoingEdges_init_def RoadGraph_setitem_def
      RoadGraph_getitem_def get_edge_def set_edge_def edges_get_def edges_put_def prog_defs
      nth_opt_Some_iff nth_opt_valid update_absent nth_append map_add_def)

lemma body_present:
  assumes "nth_opt (graph_store s) r = Some R" and "map_of (graph R) d = Some v"
    and "nth_opt (outgoing_store s) v = Some V"
    and "nth_opt (graph_store s) g = Some G"
    and "map_of (graph G) x = Some out" and "nth_opt (outgoing_store s) out = Some OUT"
    and "map_of (edges OUT) d = Some e"
  shows "reverse_body g r x d s = (Inr (),
           s\<lparr>outgoing_store := (outgoing_store s)[v := V\<lparr>edges := AList.update x e (edges V)\<rparr>]\<rparr>)"
  using assms
  by (simp add: reverse_body_def contains_result RoadGraph_getitem_def get_edge_def set_edge_def
      edges_get_def edges_put_def prog_defs)


lemma inv_graph_old:
  "reverse_inv s0 r s \<Longrightarrow> nth_opt (graph_store s0) g = Some G \<Longrightarrow>
   nth_opt (graph_store s) g = Some G \<and> g \<noteq> r"
  using take_eq_nth_opt [of "graph_store s0" "graph_store s" g G]
  by (auto simp: reverse_inv_def nth_opt_Some_iff)

lemma inv_outgoing_old:
  "reverse_inv s0 r s \<Longrightarrow> nth_opt (outgoing_store s0) v = Some V \<Longrightarrow>
   nth_opt (outgoing_store s) v = Some V"
  using take_eq_nth_opt [of "outgoing_store s0" "outgoing_store s" v V]
  by (auto simp: reverse_inv_def)

lemma inv_absent:
  assumes inv: "reverse_inv s0 r s" and R: "R = graph_store s ! r"
    and s': "s' = s\<lparr>outgoing_store := outgoing_store s @ [\<lparr>road_graph = r, edges = [(x, e)]\<rparr>],
             graph_store := (graph_store s)[r := R\<lparr>graph := graph R @ [(d, length (outgoing_store s))]\<rparr>]\<rparr>"
  shows "reverse_inv s0 r s'"
proof -
  have len: "length (outgoing_store s0) \<le> length (outgoing_store s)"
    using reverse_invD(5) [OF inv] take_eq_length [of "outgoing_store s0" "outgoing_store s"] by simp
  have old: "\<forall>v \<in> set (map snd (graph R)).
        length (outgoing_store s0) \<le> v \<and> v < length (outgoing_store s) \<and>
        road_graph (outgoing_store s ! v) = r \<and> edges (outgoing_store s ! v) \<noteq> []"
    using inv R unfolding reverse_inv_def by blast
  then have fresh: "length (outgoing_store s) \<notin> set (map snd (graph R))" by blast
  have r: "r < length (graph_store s)" by (rule reverse_invD(3) [OF inv])
  have new: "\<forall>v \<in> set (map snd (graph (graph_store s' ! r))).
        length (outgoing_store s0) \<le> v \<and> v < length (outgoing_store s') \<and>
        road_graph (outgoing_store s' ! v) = r \<and> edges (outgoing_store s' ! v) \<noteq> []"
    using old len r by (auto simp: s' nth_append)
  show ?thesis
    using reverse_invD(1-8) [OF inv] len fresh new r
    by (intro reverse_invI) (simp_all add: s' R)
qed

lemma inv_present:
  assumes inv: "reverse_inv s0 r s" and v: "map_of (graph (graph_store s ! r)) d = Some v"
    and s': "s' = s\<lparr>outgoing_store := (outgoing_store s)
                 [v := (outgoing_store s ! v)\<lparr>edges := AList.update x e (edges (outgoing_store s ! v))\<rparr>]\<rparr>"
  shows "reverse_inv s0 r s'"
proof -
  have v0: "length (outgoing_store s0) \<le> v"
    using reverse_invD(9) [OF inv v] by simp
  have vlen: "v < length (outgoing_store s)"
    using reverse_invD(9) [OF inv v] by simp
  have "\<forall>w \<in> set (map snd (graph (graph_store s' ! r))).
        length (outgoing_store s0) \<le> w \<and> w < length (outgoing_store s') \<and>
        road_graph (outgoing_store s' ! w) = r \<and> edges (outgoing_store s' ! w) \<noteq> []"
  proof
    fix w
    assume "w \<in> set (map snd (graph (graph_store s' ! r)))"
    then have "w \<in> set (map snd (graph (graph_store s ! r)))" by (simp add: s')
    then have w: "length (outgoing_store s0) \<le> w \<and> w < length (outgoing_store s) \<and>
        road_graph (outgoing_store s ! w) = r \<and> edges (outgoing_store s ! w) \<noteq> []"
      using inv unfolding reverse_inv_def by blast
    show "length (outgoing_store s0) \<le> w \<and> w < length (outgoing_store s') \<and>
        road_graph (outgoing_store s' ! w) = r \<and> edges (outgoing_store s' ! w) \<noteq> []"
      using w vlen by (cases "w = v") (simp_all add: s')
  qed
  then show ?thesis
    using reverse_invD(1-8) [OF inv] v0 by (intro reverse_invI) (simp_all add: s')
qed

lemma arc_absent:
  assumes inv: "reverse_inv s0 r s" and R: "R = graph_store s ! r"
    and d: "map_of (graph R) d = None"
    and s': "s' = s\<lparr>outgoing_store := outgoing_store s @ [\<lparr>road_graph = r, edges = [(x, e)]\<rparr>],
             graph_store := (graph_store s)[r := R\<lparr>graph := graph R @ [(d, length (outgoing_store s))]\<rparr>]\<rparr>"
  shows "arc s' r d' x' = (if d' = d \<and> x' = x then Some e else arc s r d' x')"
proof -
  have r: "r < length (graph_store s)" by (rule reverse_invD(3) [OF inv])
  have old: "\<And>k v. map_of (graph R) k = Some v \<Longrightarrow> v < length (outgoing_store s)"
    using reverse_invD(9) [OF inv] R by blast
  show ?thesis
  proof (cases "d' = d")
    case True
    then show ?thesis
      using r d by (simp add: arc_def stored_edge_def s' R [symmetric] nth_opt_def map_add_def)
  next
    case False
    then show ?thesis
      using r d old [of d']
      by (auto simp add: arc_def stored_edge_def s' R [symmetric] nth_opt_def map_add_def nth_append
          split: option.splits)
  qed
qed

lemma arc_present:
  assumes inv: "reverse_inv s0 r s" and v: "map_of (graph (graph_store s ! r)) d = Some v"
    and s': "s' = s\<lparr>outgoing_store := (outgoing_store s)
                 [v := (outgoing_store s ! v)\<lparr>edges := AList.update x e (edges (outgoing_store s ! v))\<rparr>]\<rparr>"
  shows "arc s' r d' x' = (if d' = d \<and> x' = x then Some e else arc s r d' x')"
proof -
  have r: "r < length (graph_store s)" by (rule reverse_invD(3) [OF inv])
  have dist: "distinct (map snd (graph (graph_store s ! r)))" by (rule reverse_invD(8) [OF inv])
  have vlen: "v < length (outgoing_store s)" using reverse_invD(9) [OF inv v] by simp
  show ?thesis
  proof (cases "d' = d")
    case True
    then show ?thesis
      using r v vlen by (simp add: arc_def stored_edge_def s' nth_opt_def AList.update_conv')
  next
    case False
    have "\<And>v'. map_of (graph (graph_store s ! r)) d' = Some v' \<Longrightarrow> v' \<noteq> v"
      using map_of_distinct_snd [OF dist _ v] False by blast
    then show ?thesis
      using False r
      by (auto simp add: arc_def stored_edge_def s' nth_opt_def split: option.splits)
  qed
qed

lemma reverse_body_step:
  assumes inv: "reverse_inv s0 r s"
    and G: "nth_opt (graph_store s0) g = Some G"
    and out: "map_of (graph G) x = Some out"
    and OUT: "nth_opt (outgoing_store s0) out = Some OUT"
    and e: "map_of (edges OUT) d = Some e"
  shows "\<exists>s'. reverse_body g r x d s = (Inr (), s') \<and> reverse_inv s0 r s'
           \<and> (\<forall>d' x'. arc s' r d' x' = (if d' = d \<and> x' = x then Some e else arc s r d' x'))"
proof -
  let ?R = "graph_store s ! r"
  have R: "nth_opt (graph_store s) r = Some ?R"
    using reverse_invD(3) [OF inv] by (simp add: nth_opt_valid)
  note G' = inv_graph_old [OF inv G]
  note OUT' = inv_outgoing_old [OF inv OUT]
  show ?thesis
  proof (cases "map_of (graph ?R) d")
    case None
    note run = body_absent [OF R None conjunct1 [OF G'] conjunct2 [OF G'] out OUT' e]
    show ?thesis
      using run inv_absent [where x = x and e = e and d = d, OF inv refl refl] arc_absent [where x = x and e = e, OF inv refl None refl]
      by simp
  next
    case (Some v)
    have "v < length (outgoing_store s)" using reverse_invD(9) [OF inv Some] by simp
    then have V: "nth_opt (outgoing_store s) v = Some (outgoing_store s ! v)"
      by (simp add: nth_opt_valid)
    note run = body_present [OF R Some V conjunct1 [OF G'] out OUT' e]
    show ?thesis
      using run inv_present [where x = x and e = e, OF inv Some refl] arc_present [where x = x and e = e, OF inv Some refl]
      by simp
  qed
qed


lemma reverse_inner_spec:
  assumes G: "nth_opt (graph_store s0) g = Some G"
    and out: "map_of (graph G) x = Some out"
    and OUT: "nth_opt (outgoing_store s0) out = Some OUT"
  shows "set ds \<subseteq> fst ` set (edges OUT) \<Longrightarrow> reverse_inv s0 r s \<Longrightarrow>
         \<exists>s'. reverse_inner g r x ds s = (Inr (), s') \<and> reverse_inv s0 r s'
           \<and> (\<forall>d' x'. arc s' r d' x' =
                 (if x' = x \<and> d' \<in> set ds then map_of (edges OUT) d' else arc s r d' x'))"
proof (induction ds arbitrary: s)
  case Nil
  then show ?case by (simp add: py_return_def)
next
  case (Cons d ds)
  from Cons.prems(1) obtain e where e: "map_of (edges OUT) d = Some e"
    by (cases "map_of (edges OUT) d") (auto simp: map_of_eq_None_iff)
  from reverse_body_step [OF Cons.prems(2) G out OUT e]
  obtain s1 where run1: "reverse_body g r x d s = (Inr (), s1)"
    and inv1: "reverse_inv s0 r s1"
    and arc1: "\<And>d' x'. arc s1 r d' x' = (if d' = d \<and> x' = x then Some e else arc s r d' x')"
    by blast
  from Cons.prems(1) have "set ds \<subseteq> fst ` set (edges OUT)" by simp
  from Cons.IH [OF this inv1]
  obtain s2 where run2: "reverse_inner g r x ds s1 = (Inr (), s2)"
    and inv2: "reverse_inv s0 r s2"
    and arc2: "\<And>d' x'. arc s2 r d' x' =
                 (if x' = x \<and> d' \<in> set ds then map_of (edges OUT) d' else arc s1 r d' x')"
    by blast
  have "reverse_inner g r x (d # ds) s = (Inr (), s2)"
    using run1 run2 by (simp add: py_bind_def)
  moreover have "\<forall>d' x'. arc s2 r d' x' =
      (if x' = x \<and> d' \<in> set (d # ds) then map_of (edges OUT) d' else arc s r d' x')"
    using arc1 arc2 e by auto
  ultimately show ?case using inv2 by blast
qed

lemma arc_old:
  assumes "nth_opt (graph_store s0) g = Some G" and "map_of (graph G) x = Some out"
    and "nth_opt (outgoing_store s0) out = Some OUT"
  shows "arc s0 g x d = map_of (edges OUT) d"
  using assms by (simp add: arc_def stored_edge_def)

lemma graph_ok_out:
  assumes "graph_ok s0 g" and "nth_opt (graph_store s0) g = Some G" and "map_of (graph G) x = Some out"
  shows "nth_opt (outgoing_store s0) out = Some (outgoing_store s0 ! out)"
proof -
  have "out \<in> set (map snd (graph G))" using assms(3) by (force dest: map_of_SomeD)
  then show ?thesis using assms(1,2) by (auto simp: graph_ok_def list_all_iff nth_opt_valid)
qed

lemma reverse_outer_spec:
  assumes ok: "graph_ok s0 g" and G: "nth_opt (graph_store s0) g = Some G"
  shows "set xs \<subseteq> fst ` set (graph G) \<Longrightarrow> reverse_inv s0 r s \<Longrightarrow>
         \<exists>s'. reverse_outer g r xs s = (Inr (), s') \<and> reverse_inv s0 r s'
           \<and> (\<forall>d' x'. arc s' r d' x' =
                 (if x' \<in> set xs \<and> arc s0 g x' d' \<noteq> None then arc s0 g x' d' else arc s r d' x'))"
proof (induction xs arbitrary: s)
  case Nil
  then show ?case by (simp add: py_return_def)
next
  case (Cons x xs)
  from Cons.prems(1) obtain out where out: "map_of (graph G) x = Some out"
    by (cases "map_of (graph G) x") (auto simp: map_of_eq_None_iff)
  let ?OUT = "outgoing_store s0 ! out"
  note OUT = graph_ok_out [OF ok G out]
  note G' = inv_graph_old [OF Cons.prems(2) G]
  note OUT' = inv_outgoing_old [OF Cons.prems(2) OUT]
  have "set (map fst (edges ?OUT)) \<subseteq> fst ` set (edges ?OUT)" by simp
  from reverse_inner_spec [OF G out OUT this Cons.prems(2)]
  obtain s1 where run1: "reverse_inner g r x (map fst (edges ?OUT)) s = (Inr (), s1)"
    and inv1: "reverse_inv s0 r s1"
    and arc1: "\<And>d' x'. arc s1 r d' x' =
        (if x' = x \<and> d' \<in> set (map fst (edges ?OUT)) then map_of (edges ?OUT) d' else arc s r d' x')"
    by auto
  from Cons.prems(1) have "set xs \<subseteq> fst ` set (graph G)" by simp
  from Cons.IH [OF this inv1]
  obtain s2 where run2: "reverse_outer g r xs s1 = (Inr (), s2)"
    and inv2: "reverse_inv s0 r s2"
    and arc2: "\<And>d' x'. arc s2 r d' x' =
        (if x' \<in> set xs \<and> arc s0 g x' d' \<noteq> None then arc s0 g x' d' else arc s1 r d' x')"
    by blast
  have "reverse_outer g r (x # xs) s = (Inr (), s2)"
    using run1 run2 G' out OUT'
    by (simp add: VertexOutgoingEdges_iter_def prog_defs)
  moreover have "\<forall>d' x'. arc s2 r d' x' =
      (if x' \<in> set (x # xs) \<and> arc s0 g x' d' \<noteq> None then arc s0 g x' d' else arc s r d' x')"
  proof (intro allI)
    fix d' x'
    have key: "(d' \<in> set (map fst (edges ?OUT))) = (arc s0 g x d' \<noteq> None)"
      by (simp add: arc_old [OF G out OUT] map_of_eq_None_iff)
    have same: "map_of (edges ?OUT) d' = arc s0 g x d'"
      by (simp add: arc_old [OF G out OUT])
    show "arc s2 r d' x' =
      (if x' \<in> set (x # xs) \<and> arc s0 g x' d' \<noteq> None then arc s0 g x' d' else arc s r d' x')"
      unfolding arc2 arc1 key same by auto
  qed
  ultimately show ?case using inv2 by blast
qed

lemma reverse_spec:
  assumes ok: "graph_ok s g"
  shows "\<exists>s'. reverse g s = (Inr (length (graph_store s)), s')
           \<and> reverse_inv s (length (graph_store s)) s'
           \<and> (\<forall>d x. arc s' (length (graph_store s)) d x = arc s g x d)"
proof -
  let ?r = "length (graph_store s)"
  let ?s1 = "s\<lparr>graph_store := graph_store s @ [\<lparr>graph = [], edge_weight_fun = Some weight_else_length\<rparr>]\<rparr>"
  obtain G where G: "nth_opt (graph_store s) g = Some G"
    using ok by (auto simp: graph_ok_def split: option.splits)
  have init: "RoadGraph_init s = (Inr ?r, ?s1)"
    by (simp add: RoadGraph_init_def set_edge_weight_function_def assign_edge_weight_fun_def
        prog_defs nth_opt_def)
  have inv1: "reverse_inv s ?r ?s1"
    by (intro reverse_invI) simp_all
  have arc1: "\<And>d x. arc ?s1 ?r d x = None"
    by (simp add: arc_def nth_opt_def)
  note G' = inv_graph_old [OF inv1 G]
  have "set (map fst (graph G)) \<subseteq> fst ` set (graph G)" by simp
  from reverse_outer_spec [OF ok G this inv1]
  obtain s2 where run: "reverse_outer g ?r (map fst (graph G)) ?s1 = (Inr (), s2)"
    and inv2: "reverse_inv s ?r s2"
    and arc2: "\<And>d' x'. arc s2 ?r d' x' =
        (if x' \<in> set (map fst (graph G)) \<and> arc s g x' d' \<noteq> None then arc s g x' d' else arc ?s1 ?r d' x')"
    by auto
  have "reverse g s = (Inr ?r, s2)"
    using init G' run by (simp add: reverse_def prog_defs)
  moreover have "\<forall>d x. arc s2 ?r d x = arc s g x d"
  proof (intro allI)
    fix d x
    show "arc s2 ?r d x = arc s g x d"
    proof (cases "arc s g x d")
      case None
      then show ?thesis using arc2 arc1 by simp
    next
      case (Some e)
      then have "map_of (graph G) x \<noteq> None"
        using G by (auto simp: arc_def split: option.splits)
      then have "x \<in> set (map fst (graph G))" by (simp add: map_of_eq_None_iff)
      then show ?thesis using arc2 Some by simp
    qed
  qed
  ultimately show ?thesis using inv2 by blast
qed

lemma inv_graph_ok: "reverse_inv s0 r s \<Longrightarrow> graph_ok s r"
  unfolding reverse_inv_def graph_ok_def by (auto simp: nth_opt_def list_all_iff)

lemma inv_nonempty:
  assumes inv: "reverse_inv s0 r s" and v: "map_of (graph (graph_store s ! r)) d = Some v"
  shows "\<exists>x e. arc s r d x = Some e"
proof -
  from reverse_invD(9) [OF inv v]
  have vlen: "v < length (outgoing_store s)" and ne: "edges (outgoing_store s ! v) \<noteq> []"
    by simp_all
  then obtain x e rest where "edges (outgoing_store s ! v) = (x, e) # rest"
    by (cases "edges (outgoing_store s ! v)") auto
  then have "arc s r d x = Some e"
    using reverse_invD(3) [OF inv] v vlen by (simp add: arc_def stored_edge_def nth_opt_def)
  then show ?thesis by blast
qed

text \<open>
  The example of the specification, run: the reversed graph is \<open>B \<rightarrow> {A: Edge(5)}\<close>,
  \<open>C \<rightarrow> {B: Edge(3)}\<close>, built from two new containers and the two Edge objects of the
  original, and \<open>A\<close> is not a source vertex of it.
\<close>

lemma reverse_example:
  "reverse 0 example_store = (Inr 1,
     example_store\<lparr>
       outgoing_store := outgoing_store example_store @
         [\<lparr>road_graph = 1, edges = [(''A'', PRef 0)]\<rparr>, \<lparr>road_graph = 1, edges = [(''B'', PRef 1)]\<rparr>],
       graph_store := graph_store example_store @
         [\<lparr>graph = [(''B'', 2), (''C'', 3)], edge_weight_fun = Some weight_else_length\<rparr>]\<rparr>)"
  by (simp add: reverse_def reverse_body_def RoadGraph_init_def set_edge_weight_function_def
      assign_edge_weight_fun_def RoadGraph_contains_def RoadGraph_getitem_def RoadGraph_setitem_def
      VertexOutgoingEdges_init_def VertexOutgoingEdges_iter_def get_edge_def set_edge_def
      edges_get_def edges_put_def prog_defs nth_opt_def example_store_def)

text \<open>
  Claim C1. For a graph \<open>g\<close> whose values are containers, \<^verbatim>\<open>reverse\<close> returns a graph
  object \<open>r\<close> that did not exist before, and the entry of \<open>r\<close> for source \<open>dest\<close> and
  destination \<open>src\<close> is exactly the entry of \<open>g\<close> for source \<open>src\<close> and destination
  \<open>dest\<close>: the same reference to the same Edge object where \<open>g\<close> has an arc, and no entry
  where \<open>g\<close> has none. Every source vertex of \<open>r\<close> has at least one entry. The call
  creates and changes no Edge object, and every container and graph that existed before,
  \<open>g\<close> and its containers among them, is unchanged.
\<close>

theorem reverse_arcs:
  assumes "graph_ok s g" and "r = length (graph_store s)" and "s' = snd (reverse g s)"
  shows "fst (reverse g s) = Inr r
       \<and> (\<forall>src dest. arc s' r dest src = arc s g src dest)
       \<and> (\<forall>dest v. map_of (graph (graph_store s' ! r)) dest = Some v \<longrightarrow>
             (\<exists>src e. arc s' r dest src = Some e))
       \<and> edge_store s' = edge_store s
       \<and> take (length (outgoing_store s)) (outgoing_store s') = outgoing_store s
       \<and> take (length (graph_store s)) (graph_store s') = graph_store s
       \<and> length (graph_store s') = Suc (length (graph_store s))"
proof -
  from reverse_spec [OF assms(1)] assms(2,3)
  have run: "reverse g s = (Inr r, s')" and inv: "reverse_inv s r s'"
    and arcs: "\<forall>d x. arc s' r d x = arc s g x d"
    by auto
  show ?thesis
    using run arcs inv_nonempty [OF inv] reverse_invD(1,2,4,5,6) [OF inv] by auto
qed

theorem reverse_arcs_witness:
  "graph_ok example_store 0
   \<and> fst (reverse 0 example_store) = Inr 1
   \<and> arc (snd (reverse 0 example_store)) 1 ''B'' ''A'' = Some (PRef 0)
   \<and> arc (snd (reverse 0 example_store)) 1 ''C'' ''B'' = Some (PRef 1)
   \<and> arc (snd (reverse 0 example_store)) 1 ''A'' ''B'' = None
   \<and> edge_store (snd (reverse 0 example_store)) = edge_store example_store"
proof -
  have ok: "graph_ok example_store 0"
    by (simp add: graph_ok_def nth_opt_def example_store_def)
  have len: "1 = length (graph_store example_store)"
    by (simp add: example_store_def)
  have old: "arc example_store 0 ''A'' ''B'' = Some (PRef 0)"
    "arc example_store 0 ''B'' ''C'' = Some (PRef 1)" "arc example_store 0 ''B'' ''A'' = None"
    by (simp_all add: arc_def stored_edge_def nth_opt_def example_store_def)
  show ?thesis
    using reverse_arcs [OF ok len refl] ok old by simp
qed

text \<open>
  Claim C6. Reversing twice gives a graph with the entries of the original: for every
  source and destination the second reversal holds the reference the original holds, so
  the sets of triples of source, destination and edge are equal, and the Edge objects are
  as before. Nothing is said about the weight functions of the two graphs.
\<close>

theorem reverse_twice:
  assumes "graph_ok s g" and "r1 = length (graph_store s)" and "s1 = snd (reverse g s)"
    and "s2 = snd (reverse r1 s1)"
  shows "fst (reverse g s) = Inr r1 \<and> fst (reverse r1 s1) = Inr (Suc r1)
       \<and> (\<forall>src dest. arc s2 (Suc r1) src dest = arc s g src dest)
       \<and> {(src, dest, e). arc s2 (Suc r1) src dest = Some e} = {(src, dest, e). arc s g src dest = Some e}
       \<and> edge_store s2 = edge_store s"
proof -
  from reverse_spec [OF assms(1)] assms(2,3)
  have run1: "reverse g s = (Inr r1, s1)" and inv1: "reverse_inv s r1 s1"
    and arcs1: "\<forall>d x. arc s1 r1 d x = arc s g x d"
    by auto
  have len1: "length (graph_store s1) = Suc r1" by (rule reverse_invD(2) [OF inv1])
  from reverse_spec [OF inv_graph_ok [OF inv1]] assms(4) len1
  have run2: "reverse r1 s1 = (Inr (Suc r1), s2)" and inv2: "reverse_inv s1 (Suc r1) s2"
    and arcs2: "\<forall>d x. arc s2 (Suc r1) d x = arc s1 r1 x d"
    by auto
  have "\<forall>src dest. arc s2 (Suc r1) src dest = arc s g src dest"
    using arcs1 arcs2 by simp
  then show ?thesis
    using run1 run2 reverse_invD(6) [OF inv1] reverse_invD(6) [OF inv2] by simp
qed

theorem reverse_twice_witness:
  "graph_ok example_store 0
   \<and> fst (reverse 1 (snd (reverse 0 example_store))) = Inr 2
   \<and> arc (snd (reverse 1 (snd (reverse 0 example_store)))) 2 ''A'' ''B'' = Some (PRef 0)
   \<and> arc (snd (reverse 1 (snd (reverse 0 example_store)))) 2 ''B'' ''C'' = Some (PRef 1)
   \<and> arc (snd (reverse 1 (snd (reverse 0 example_store)))) 2 ''B'' ''A'' = None"
proof -
  have ok: "graph_ok example_store 0"
    by (simp add: graph_ok_def nth_opt_def example_store_def)
  have len: "1 = length (graph_store example_store)"
    by (simp add: example_store_def)
  have old: "arc example_store 0 ''A'' ''B'' = Some (PRef 0)"
    "arc example_store 0 ''B'' ''C'' = Some (PRef 1)" "arc example_store 0 ''B'' ''A'' = None"
    by (simp_all add: arc_def stored_edge_def nth_opt_def example_store_def)
  have two: "Suc 1 = 2" by simp
  show ?thesis
    using reverse_twice [OF ok len refl refl] ok old unfolding two by simp
qed




end
